theory Spec2Isabelle
  imports Complex_Main
begin

section \<open>Python values and the operations the checker applies to them\<close>

text \<open>
  The Confluence freshness checker (\<^verbatim>\<open>engineering_health_check/confluence_checker.py\<close>)
  works on values decoded from JSON (the REST replies) and from YAML (the config file).
  \<open>pyval\<close> is the type of those values. A \<open>PDict\<close> holds the items of the dict in
  insertion order, with distinct keys; \<open>PNone\<close> is Python's \<open>None\<close> (JSON \<open>null\<close>).
  Numbers are the integers; a \<open>char\<close> stands for one code point of a Python \<open>str\<close>.
\<close>

datatype pyval =
    PNone
  | PBool bool
  | PInt int
  | PStr string
  | PList "pyval list"
  | PDict "(string \<times> pyval) list"

text \<open>The exceptions that the code can meet; each raise is a value \<open>Inl e\<close>.\<close>

datatype py_error =
    HTTPError
  | RequestException
  | JSONDecodeError
  | YAMLError
  | OSError
  | AttributeError
  | TypeError
  | ZeroDivisionError
  | OverflowError

text \<open>Truth value testing, as \<^verbatim>\<open>if x\<close>, \<^verbatim>\<open>not x\<close> and \<^verbatim>\<open>x or y\<close> apply it.\<close>

fun truthy :: "pyval \<Rightarrow> bool" where
  "truthy PNone = False"
| "truthy (PBool b) = b"
| "truthy (PInt n) = (n \<noteq> 0)"
| "truthy (PStr s) = (s \<noteq> [])"
| "truthy (PList xs) = (xs \<noteq> [])"
| "truthy (PDict kvs) = (kvs \<noteq> [])"

text \<open>\<^verbatim>\<open>d.get(k, dflt)\<close>: only a dict has the method; anything else raises AttributeError.\<close>

fun dict_get :: "pyval \<Rightarrow> string \<Rightarrow> pyval \<Rightarrow> py_error + pyval" where
  "dict_get (PDict kvs) k dflt = Inr (case map_of kvs k of None \<Rightarrow> dflt | Some v \<Rightarrow> v)"
| "dict_get PNone k dflt = Inl AttributeError"
| "dict_get (PBool b) k dflt = Inl AttributeError"
| "dict_get (PInt n) k dflt = Inl AttributeError"
| "dict_get (PStr s) k dflt = Inl AttributeError"
| "dict_get (PList xs) k dflt = Inl AttributeError"

text \<open>\<^verbatim>\<open>for item in x\<close>: a list gives its elements, a str its characters, a dict its keys.\<close>

fun py_iter :: "pyval \<Rightarrow> py_error + pyval list" where
  "py_iter (PList xs) = Inr xs"
| "py_iter (PStr s) = Inr (map (\<lambda>c. PStr [c]) s)"
| "py_iter (PDict kvs) = Inr (map (\<lambda>kv. PStr (fst kv)) kvs)"
| "py_iter PNone = Inl TypeError"
| "py_iter (PBool b) = Inl TypeError"
| "py_iter (PInt n) = Inl TypeError"

text \<open>\<^verbatim>\<open>len(x)\<close>.\<close>

fun py_len :: "pyval \<Rightarrow> py_error + int" where
  "py_len (PList xs) = Inr (int (length xs))"
| "py_len (PStr s) = Inr (int (length s))"
| "py_len (PDict kvs) = Inr (int (length kvs))"
| "py_len PNone = Inl TypeError"
| "py_len (PBool b) = Inl TypeError"
| "py_len (PInt n) = Inl TypeError"

text \<open>\<^verbatim>\<open>start += size\<close> with an int on the left: bool is a subtype of int.\<close>

fun int_add :: "int \<Rightarrow> pyval \<Rightarrow> py_error + int" where
  "int_add n (PInt m) = Inr (n + m)"
| "int_add n (PBool b) = Inr (n + (if b then 1 else 0))"
| "int_add n PNone = Inl TypeError"
| "int_add n (PStr s) = Inl TypeError"
| "int_add n (PList xs) = Inl TypeError"
| "int_add n (PDict kvs) = Inl TypeError"

text \<open>\<^verbatim>\<open>s.rstrip("/")\<close> and \<^verbatim>\<open>s.replace("Z", "+00:00")\<close>.\<close>

definition rstrip_slash :: "string \<Rightarrow> string" where
  "rstrip_slash s = rev (dropWhile (\<lambda>c. c = CHR ''/'') (rev s))"

definition replace_Z :: "string \<Rightarrow> string" where
  "replace_Z s = concat (map (\<lambda>c. if c = CHR ''Z'' then ''+00:00'' else [c]) s)"

section \<open>Configuration and session\<close>

text \<open>\<^verbatim>\<open>os.path.join(a, b)\<close> on a POSIX system.\<close>

definition path_join :: "string \<Rightarrow> string \<Rightarrow> string" where
  "path_join a b =
     (if b \<noteq> [] \<and> hd b = CHR ''/'' then b
      else if a = [] then b
      else if last a = CHR ''/'' then a @ b
      else a @ ''/'' @ b)"

text \<open>
  \<open>load_config\<close>. The file system is a function from paths to \<open>None\<close> (no such file) or
  the outcome of opening and reading the file; \<open>safe_load\<close> is \<^verbatim>\<open>yaml.safe_load\<close>;
  \<open>module_dir\<close> is \<^verbatim>\<open>os.path.dirname(__file__)\<close>.
\<close>

definition config_path :: "string \<Rightarrow> string option \<Rightarrow> string" where
  "config_path module_dir path =
     (case path of None \<Rightarrow> path_join module_dir ''config.yml'' | Some q \<Rightarrow> q)"

definition load_config ::
  "(string \<Rightarrow> py_error + pyval) \<Rightarrow> (string \<Rightarrow> (py_error + string) option) \<Rightarrow> string \<Rightarrow>
   string option \<Rightarrow> py_error + pyval" where
  "load_config safe_load fs module_dir path =
     (let p = config_path module_dir path in
      case fs p of
        None \<Rightarrow> Inr (PDict [])
      | Some (Inl e) \<Rightarrow> Inl e
      | Some (Inr text) \<Rightarrow>
          (case safe_load text of
             Inl e \<Rightarrow> Inl e
           | Inr v \<Rightarrow> Inr (if truthy v then v else PDict [])))"

text \<open>
  A \<^verbatim>\<open>requests.Session\<close>, as far as the checker touches it: the \<open>auth\<close> attribute, which
  a new session holds as \<open>None\<close>.
\<close>

record session =
  auth :: "(pyval \<times> pyval) option"

definition new_session :: session where
  "new_session = \<lparr>auth = None\<rparr>"

definition make_session :: "pyval \<Rightarrow> py_error + session" where
  "make_session config =
     (case dict_get config ''username'' PNone of
        Inl e \<Rightarrow> Inl e
      | Inr u \<Rightarrow>
          (case dict_get config ''api_token'' PNone of
             Inl e \<Rightarrow> Inl e
           | Inr t \<Rightarrow> Inr (new_session\<lparr>auth := Some (u, t)\<rparr>)))"

text \<open>
  What the requests library does with the attribute when it prepares a request: it tests
  \<^verbatim>\<open>if auth:\<close> and turns a 2-tuple into HTTP basic authentication. A tuple of two
  elements is true whatever it holds, so the header is attached exactly when the
  attribute is not \<open>None\<close>.
\<close>

definition attaches_basic_auth :: "session \<Rightarrow> bool" where
  "attaches_basic_auth s = (case auth s of None \<Rightarrow> False | Some up \<Rightarrow> True)"

section \<open>The page paginator\<close>

text \<open>What a GET can come to: the three ways it raises, or a decoded body.\<close>

datatype reply =
    ConnectionFailed
  | BadStatus
  | NotJson
  | Body pyval

definition api_url :: "string \<Rightarrow> string" where
  "api_url base_url = rstrip_slash base_url @ ''/rest/api/content''"

text \<open>The query parameters of one request (a dict, in insertion order).\<close>

definition request_params :: "string option \<Rightarrow> int \<Rightarrow> int \<Rightarrow> (string \<times> pyval) list" where
  "request_params space_key limit start =
     [(''type'', PStr ''page''), (''limit'', PInt limit), (''start'', PInt start),
      (''expand'', PStr ''version'')]
     @ (case space_key of
          None \<Rightarrow> []
        | Some k \<Rightarrow> if k \<noteq> [] then [(''spaceKey'', PStr k)] else [])"

text \<open>
  \<^verbatim>\<open>results = data.get("results") or data.get("page") or data.get("values")\<close>, then the
  fallback when that is \<open>None\<close>.
\<close>

definition extract_results :: "pyval \<Rightarrow> py_error + pyval" where
  "extract_results data =
     (case dict_get data ''results'' PNone of
        Inl e \<Rightarrow> Inl e
      | Inr r \<Rightarrow>
          (case (if truthy r then Inr r
                 else (case dict_get data ''page'' PNone of
                         Inl e \<Rightarrow> Inl e
                       | Inr p \<Rightarrow> if truthy p then Inr p else dict_get data ''values'' PNone)) of
             Inl e \<Rightarrow> Inl e
           | Inr results \<Rightarrow>
               if results = PNone then dict_get data ''results'' (PList []) else Inr results))"

text \<open>How one turn of the \<^verbatim>\<open>while True\<close> loop ends.\<close>

datatype control = Break | Continue int | Raise py_error

text \<open>
  The last test of the loop body, \<open>True\<close> when the loop goes on:
  \<^verbatim>\<open>if not links.get("next") and (not results or len(results) < limit): break\<close>.
\<close>

definition more_pages :: "int \<Rightarrow> pyval \<Rightarrow> pyval \<Rightarrow> py_error + bool" where
  "more_pages limit data results =
     (case dict_get data ''_links'' (PDict []) of
        Inl e \<Rightarrow> Inl e
      | Inr links \<Rightarrow>
          (case dict_get links ''next'' PNone of
             Inl e \<Rightarrow> Inl e
           | Inr nxt \<Rightarrow>
               if truthy nxt then Inr True
               else if truthy results then
                 (case py_len results of Inl e \<Rightarrow> Inl e | Inr n \<Rightarrow> Inr (limit \<le> n))
               else Inr False))"

definition link_check :: "int \<Rightarrow> int \<Rightarrow> pyval \<Rightarrow> pyval \<Rightarrow> control" where
  "link_check limit start' data results =
     (case more_pages limit data results of
        Inl e \<Rightarrow> Raise e
      | Inr go \<Rightarrow> if go then Continue start' else Break)"

text \<open>The loop body after the records of the page have been yielded.\<close>

definition after_yield :: "int \<Rightarrow> int \<Rightarrow> pyval \<Rightarrow> pyval \<Rightarrow> control" where
  "after_yield limit start data results =
     (case dict_get data ''size'' PNone of
        Inl e \<Rightarrow> Raise e
      | Inr sz \<Rightarrow>
          if sz = PNone then
            (if truthy results then
               (case py_len results of
                  Inl e \<Rightarrow> Raise e
                | Inr n \<Rightarrow> link_check limit (start + n) data results)
             else Break)
          else
            (case int_add start sz of
               Inl e \<Rightarrow> Raise e
             | Inr start' \<Rightarrow> link_check limit start' data results))"

text \<open>One turn of the loop: the records it yields and how it ends.\<close>

definition page_step :: "int \<Rightarrow> int \<Rightarrow> reply \<Rightarrow> pyval list \<times> control" where
  "page_step limit start r =
     (case r of
        ConnectionFailed \<Rightarrow> ([], Raise RequestException)
      | BadStatus \<Rightarrow> ([], Raise HTTPError)
      | NotJson \<Rightarrow> ([], Raise JSONDecodeError)
      | Body data \<Rightarrow>
          (case extract_results data of
             Inl e \<Rightarrow> ([], Raise e)
           | Inr results \<Rightarrow>
               (case py_iter results of
                  Inl e \<Rightarrow> ([], Raise e)
                | Inr items \<Rightarrow> (items, after_yield limit start data results))))"

text \<open>
  A run of the generator against the replies the server gives, in order. \<open>yielded\<close> are
  the records it yields, \<open>offsets\<close> the \<open>start\<close> parameter of every request it issues,
  \<open>ending\<close> how it stops. \<open>Pending\<close>: the replies are used up and the loop has issued one
  more request, so it has not stopped.
\<close>

datatype ending = Finished | Raised py_error | Pending

record run =
  yielded :: "pyval list"
  offsets :: "int list"
  ending :: ending

fun iterate_from :: "int \<Rightarrow> int \<Rightarrow> reply list \<Rightarrow> run" where
  "iterate_from limit start [] = \<lparr>yielded = [], offsets = [start], ending = Pending\<rparr>"
| "iterate_from limit start (r # rs) =
     (case page_step limit start r of
        (items, Break) \<Rightarrow> \<lparr>yielded = items, offsets = [start], ending = Finished\<rparr>
      | (items, Raise e) \<Rightarrow> \<lparr>yielded = items, offsets = [start], ending = Raised e\<rparr>
      | (items, Continue start') \<Rightarrow>
          (let rest = iterate_from limit start' rs in
           \<lparr>yielded = items @ yielded rest, offsets = start # offsets rest,
            ending = ending rest\<rparr>))"

text \<open>
  \<open>iterate_pages\<close>: every request goes to \<open>api_url base_url\<close> with
  \<open>request_params space_key limit start\<close>, through \<open>session\<close>; the first \<open>start\<close> is 0.
\<close>

definition iterate_pages ::
  "session \<Rightarrow> string \<Rightarrow> string option \<Rightarrow> int \<Rightarrow> reply list \<Rightarrow> run" where
  "iterate_pages session base_url space_key limit replies = iterate_from limit 0 replies"

section \<open>The freshness analyzer\<close>

text \<open>
  A \<^verbatim>\<open>datetime\<close>: the wall-clock time in microseconds, and the UTC offset of its
  \<open>tzinfo\<close> in microseconds (\<open>None\<close> for a naive datetime). A \<^verbatim>\<open>timedelta\<close> is a number
  of microseconds. The datetimes are those of the library (years 1 to 9999), so the
  difference of two of them is always a \<^verbatim>\<open>timedelta\<close>.
\<close>

record datetime =
  micros :: int
  utcoffset :: "int option"

type_synonym timedelta = int

text \<open>
  \<^verbatim>\<open>datetime.timedelta(days=d)\<close>: the library holds at most 999999999 days either way and
  raises OverflowError beyond.
\<close>

definition timedelta_days :: "int \<Rightarrow> py_error + timedelta" where
  "timedelta_days d =
     (if - 999999999 \<le> d \<and> d \<le> 999999999 then Inr (d * 86400000000) else Inl OverflowError)"

text \<open>\<^verbatim>\<open>a - b\<close> on datetimes: a naive and an aware one do not subtract.\<close>

definition dt_sub :: "datetime \<Rightarrow> datetime \<Rightarrow> py_error + timedelta" where
  "dt_sub a b =
     (case utcoffset a of
        None \<Rightarrow> (case utcoffset b of None \<Rightarrow> Inr (micros a - micros b) | Some ob \<Rightarrow> Inl TypeError)
      | Some oa \<Rightarrow>
          (case utcoffset b of
             None \<Rightarrow> Inl TypeError
           | Some ob \<Rightarrow> Inr ((micros a - oa) - (micros b - ob))))"

text \<open>\<^verbatim>\<open>datetime.datetime.now(datetime.timezone.utc)\<close> when the clock reads \<open>t\<close>.\<close>

definition now_utc :: "int \<Rightarrow> datetime" where
  "now_utc t = \<lparr>micros = t, utcoffset = Some 0\<rparr>"

text \<open>
  \<open>get_last_modified\<close>. \<open>fromisoformat\<close> is \<^verbatim>\<open>datetime.datetime.fromisoformat\<close> on a
  str, \<open>None\<close> where it raises ValueError. \<^verbatim>\<open>when.replace\<close> on a value that is not a
  str raises AttributeError inside the \<^verbatim>\<open>try\<close>, which swallows it.
\<close>

definition get_last_modified ::
  "(string \<Rightarrow> datetime option) \<Rightarrow> pyval \<Rightarrow> py_error + datetime option" where
  "get_last_modified fromisoformat item =
     (case dict_get item ''version'' PNone of
        Inl e \<Rightarrow> Inl e
      | Inr v \<Rightarrow>
          (case dict_get (if truthy v then v else PDict []) ''when'' PNone of
             Inl e \<Rightarrow> Inl e
           | Inr when \<Rightarrow>
               if truthy when then
                 (case when of
                    PStr s \<Rightarrow> Inr (fromisoformat (replace_Z s))
                  | PNone \<Rightarrow> Inr None
                  | PBool b \<Rightarrow> Inr None
                  | PInt n \<Rightarrow> Inr None
                  | PList xs \<Rightarrow> Inr None
                  | PDict kvs \<Rightarrow> Inr None)
               else Inr None))"

text \<open>The body of the \<^verbatim>\<open>for\<close> loop of \<open>analyze\<close>, on the counters \<open>(total, stale)\<close>.\<close>

definition analyze_item ::
  "(string \<Rightarrow> datetime option) \<Rightarrow> datetime \<Rightarrow> timedelta \<Rightarrow> pyval \<Rightarrow> nat \<times> nat \<Rightarrow>
   py_error + nat \<times> nat" where
  "analyze_item fromisoformat now threshold item acc =
     (case acc of (n_total, n_stale) \<Rightarrow>
        (case get_last_modified fromisoformat item of
           Inl e \<Rightarrow> Inl e
         | Inr None \<Rightarrow> Inr (n_total + 1, n_stale + 1)
         | Inr (Some lm) \<Rightarrow>
             (case dt_sub now (if utcoffset lm = None then lm\<lparr>utcoffset := Some 0\<rparr> else lm) of
                Inl e \<Rightarrow> Inl e
              | Inr age \<Rightarrow>
                  Inr (n_total + 1, if threshold < age then n_stale + 1 else n_stale))))"

fun analyze_loop ::
  "(string \<Rightarrow> datetime option) \<Rightarrow> datetime \<Rightarrow> timedelta \<Rightarrow> pyval list \<Rightarrow> nat \<times> nat \<Rightarrow>
   py_error + nat \<times> nat" where
  "analyze_loop fromisoformat now threshold [] acc = Inr acc"
| "analyze_loop fromisoformat now threshold (item # items) acc =
     (case analyze_item fromisoformat now threshold item acc of
        Inl e \<Rightarrow> Inl e
      | Inr acc' \<Rightarrow> analyze_loop fromisoformat now threshold items acc')"

text \<open>
  The summary. \<open>percent_stale\<close> is the exact quotient: the rounding of the float
  division is not modelled.
\<close>

record summary =
  total :: nat
  stale :: nat
  percent_stale :: rat

definition py_truediv :: "nat \<Rightarrow> nat \<Rightarrow> py_error + rat" where
  "py_truediv a b = (if b = 0 then Inl ZeroDivisionError else Inr (of_nat a / of_nat b))"

definition percent :: "nat \<Rightarrow> nat \<Rightarrow> py_error + rat" where
  "percent n_stale n_total =
     (if n_total \<noteq> 0 then
        (case py_truediv n_stale n_total of Inl e \<Rightarrow> Inl e | Inr q \<Rightarrow> Inr (q * 100))
      else Inr 0)"

text \<open>
  \<open>analyze\<close>, with the clock reading \<open>clock\<close> and the server's replies. The threshold is
  built before the first request. The records are consumed as they are yielded, so an
  exception of the loop body on a record comes before one that the generator raises later.
  \<open>None\<close>: the generator has not stopped within the replies, and \<open>analyze\<close> has not
  returned.
\<close>

definition analyze ::
  "(string \<Rightarrow> datetime option) \<Rightarrow> int \<Rightarrow> session \<Rightarrow> string \<Rightarrow> string option \<Rightarrow> int \<Rightarrow> int \<Rightarrow>
   reply list \<Rightarrow> (py_error + summary) option" where
  "analyze fromisoformat clock session base_url space_key threshold_days limit replies =
     (case timedelta_days threshold_days of
        Inl e \<Rightarrow> Some (Inl e)
      | Inr threshold \<Rightarrow>
          (let pages = iterate_pages session base_url space_key limit replies in
           case analyze_loop fromisoformat (now_utc clock) threshold (yielded pages) (0, 0) of
             Inl e \<Rightarrow> Some (Inl e)
           | Inr (n_total, n_stale) \<Rightarrow>
               (case ending pages of
                  Pending \<Rightarrow> None
                | Raised e \<Rightarrow> Some (Inl e)
                | Finished \<Rightarrow>
                    (case percent n_stale n_total of
                       Inl e \<Rightarrow> Some (Inl e)
                     | Inr p \<Rightarrow>
                         Some (Inr \<lparr>total = n_total, stale = n_stale, percent_stale = p\<rparr>)))))"

section \<open>The specification's notions\<close>

text \<open>
  The instant of a datetime on the UTC time line, a naive one being taken as UTC: what the
  specification calls the timestamp normalised to UTC.
\<close>

definition utc_instant :: "datetime \<Rightarrow> int" where
  "utc_instant d = (case utcoffset d of None \<Rightarrow> micros d | Some off \<Rightarrow> micros d - off)"

text \<open>
  \<^verbatim>\<open>data.get(k)\<close> on the items of a dict, and the first of a list of field names whose
  value is true (not absent, not null, not empty), if there is one.
\<close>

definition field :: "(string \<times> pyval) list \<Rightarrow> string \<Rightarrow> pyval" where
  "field kvs k = (case map_of kvs k of None \<Rightarrow> PNone | Some v \<Rightarrow> v)"

definition first_truthy :: "(string \<times> pyval) list \<Rightarrow> string list \<Rightarrow> pyval option" where
  "first_truthy kvs names = List.find truthy (map (field kvs) names)"



text \<open>
  A stale page, in the specification's words: a page whose last-modified time is older
  than the threshold of \<open>T\<close> days when the clock reads \<open>clock\<close>, or whose timestamp cannot
  be determined.
\<close>

definition is_stale :: "(string \<Rightarrow> datetime option) \<Rightarrow> int \<Rightarrow> int \<Rightarrow> pyval \<Rightarrow> bool" where
  "is_stale fromisoformat clock T item =
     (case get_last_modified fromisoformat item of
        Inl e \<Rightarrow> False
      | Inr None \<Rightarrow> True
      | Inr (Some lm) \<Rightarrow> T * 86400000000 < clock - utc_instant lm)"

text \<open>
  A record whose \<open>version\<close> field is absent, an object, or a value that counts as false
  (null, \<open>false\<close>, 0, an empty string or array).
\<close>

definition version_absent_or_object :: "pyval \<Rightarrow> bool" where
  "version_absent_or_object item =
     (case item of
        PDict kvs \<Rightarrow>
          (case map_of kvs ''version'' of
             None \<Rightarrow> True
           | Some (PDict vs) \<Rightarrow> True
           | Some PNone \<Rightarrow> True
           | Some (PBool b) \<Rightarrow> b = False
           | Some (PInt n) \<Rightarrow> n = 0
           | Some (PStr s) \<Rightarrow> s = []
           | Some (PList xs) \<Rightarrow> xs = [])
      | _ \<Rightarrow> False)"

section \<open>Properties\<close>

subsection \<open>Which exceptions the helpers raise\<close>

lemma dict_get_error: "dict_get d k dflt = Inl e \<Longrightarrow> e = AttributeError"
  by (cases d) simp_all

lemma py_iter_error: "py_iter v = Inl e \<Longrightarrow> e = TypeError"
  by (cases v) simp_all

lemma py_len_error: "py_len v = Inl e \<Longrightarrow> e = TypeError"
  by (cases v) simp_all

lemma int_add_error: "int_add n v = Inl e \<Longrightarrow> e = TypeError"
  by (cases v) simp_all

lemma extract_results_error: "extract_results data = Inl e \<Longrightarrow> e = AttributeError"
  by (auto simp: extract_results_def split: sum.splits if_splits dest: dict_get_error)

lemma more_pages_error: "more_pages limit data results = Inl e \<Longrightarrow> e \<noteq> ZeroDivisionError"
  by (auto simp: more_pages_def split: sum.splits if_splits dest: dict_get_error py_len_error)

lemma link_check_error: "link_check limit s data results \<noteq> Raise ZeroDivisionError"
  by (auto simp: link_check_def split: sum.splits dest: more_pages_error)

lemma after_yield_error: "after_yield limit start data results \<noteq> Raise ZeroDivisionError"
  by (auto simp: after_yield_def link_check_error split: sum.splits
      dest: dict_get_error py_len_error int_add_error)

lemma page_step_error: "snd (page_step limit start r) \<noteq> Raise ZeroDivisionError"
  by (auto simp: page_step_def after_yield_error split: reply.splits sum.splits
      dest: extract_results_error py_iter_error)

lemma iterate_from_error: "ending (iterate_from limit start rs) \<noteq> Raised ZeroDivisionError"
proof (induction rs arbitrary: start)
  case Nil
  show ?case by simp
next
  case (Cons r rs)
  obtain items c where pc: "page_step limit start r = (items, c)"
    by (cases "page_step limit start r")
  with page_step_error[of limit start r] have "c \<noteq> Raise ZeroDivisionError" by simp
  with pc Cons.IH show ?case
    by (cases c) (simp_all add: Let_def)
qed

subsection \<open>What the analyzer counts\<close>

lemma age_of_parsed:
  "dt_sub (now_utc clock) (if utcoffset lm = None then lm\<lparr>utcoffset := Some 0\<rparr> else lm)
     = Inr (clock - utc_instant lm)"
  by (cases "utcoffset lm") (simp_all add: dt_sub_def now_utc_def utc_instant_def)

lemma analyze_item_result:
  "analyze_item f (now_utc clock) th item (t, s) =
     (case get_last_modified f item of
        Inl e \<Rightarrow> Inl e
      | Inr None \<Rightarrow> Inr (t + 1, s + 1)
      | Inr (Some lm) \<Rightarrow> Inr (t + 1, if th < clock - utc_instant lm then s + 1 else s))"
  by (simp add: analyze_item_def age_of_parsed split: sum.splits option.splits)

lemma analyze_item_stale:
  "analyze_item f (now_utc clock) (T * 86400000000) item (t, s) = Inr (t', s') \<Longrightarrow>
     t' = Suc t \<and> s' = s + (if is_stale f clock T item then 1 else 0)"
  by (auto simp: analyze_item_result is_stale_def split: sum.splits option.splits if_splits)

lemma analyze_item_raises:
  "analyze_item f (now_utc clock) th item acc = Inl e \<Longrightarrow> get_last_modified f item = Inl e"
  by (cases acc) (auto simp: analyze_item_result split: sum.splits option.splits)

lemma analyze_loop_stale:
  "analyze_loop f (now_utc clock) (T * 86400000000) items (t, s) = Inr (t', s') \<Longrightarrow>
     t' = t + length items \<and> s' = s + length (filter (is_stale f clock T) items)"
proof (induction items arbitrary: t s)
  case Nil
  then show ?case by simp
next
  case (Cons item items)
  from Cons.prems obtain t1 s1 where
    step: "analyze_item f (now_utc clock) (T * 86400000000) item (t, s) = Inr (t1, s1)" and
    rest: "analyze_loop f (now_utc clock) (T * 86400000000) items (t1, s1) = Inr (t', s')"
    by (auto split: sum.splits)
  from analyze_item_stale[OF step] Cons.IH[OF rest] show ?case by simp
qed

lemma analyze_loop_raises:
  "analyze_loop f (now_utc clock) th items acc = Inl e \<Longrightarrow>
     \<exists>x\<in>set items. get_last_modified f x = Inl e"
proof (induction items arbitrary: acc)
  case Nil
  then show ?case by simp
next
  case (Cons item items)
  show ?case
  proof (cases "analyze_item f (now_utc clock) th item acc")
    case (Inl e')
    with Cons.prems have "e' = e" by simp
    with Inl analyze_item_raises show ?thesis by fastforce
  next
    case (Inr acc')
    with Cons.prems have "analyze_loop f (now_utc clock) th items acc' = Inl e" by simp
    from Cons.IH[OF this] show ?thesis by auto
  qed
qed


lemma timedelta_days_range:
  "timedelta_days T = Inr th \<longleftrightarrow> (- 999999999 \<le> T \<and> T \<le> 999999999 \<and> th = T * 86400000000)"
  by (auto simp: timedelta_days_def)

lemma timedelta_days_raises:
  "timedelta_days T = Inl e \<longleftrightarrow> (\<not> (- 999999999 \<le> T \<and> T \<le> 999999999) \<and> e = OverflowError)"
  by (auto simp: timedelta_days_def)

lemma percent_value:
  "percent s t = Inr (if t = 0 then 0 else of_nat s / of_nat t * 100)"
  by (simp add: percent_def py_truediv_def)

lemma analyze_returns:
  assumes "analyze f clock session base_url space_key T limit replies = Some (Inr r)"
  shows "- 999999999 \<le> T \<and> T \<le> 999999999 \<and>
         ending (iterate_pages session base_url space_key limit replies) = Finished \<and>
         total r = length (yielded (iterate_pages session base_url space_key limit replies)) \<and>
         stale r = length (filter (is_stale f clock T)
                      (yielded (iterate_pages session base_url space_key limit replies))) \<and>
         percent_stale r = (if total r = 0 then 0 else of_nat (stale r) / of_nat (total r) * 100)"
proof -
  let ?pages = "iterate_pages session base_url space_key limit replies"
  from assms obtain th where th: "timedelta_days T = Inr th"
    by (cases "timedelta_days T") (simp_all add: analyze_def)
  then have range: "- 999999999 \<le> T \<and> T \<le> 999999999" and th_eq: "th = T * 86400000000"
    by (simp_all add: timedelta_days_range)
  from assms th obtain t s where
    loop: "analyze_loop f (now_utc clock) th (yielded ?pages) (0, 0) = Inr (t, s)"
    by (cases "analyze_loop f (now_utc clock) th (yielded ?pages) (0, 0)")
       (auto simp: analyze_def Let_def)
  from assms th loop have fin: "ending ?pages = Finished"
    by (cases "ending ?pages") (simp_all add: analyze_def Let_def)
  from assms th loop fin have r: "r = \<lparr>total = t, stale = s,
      percent_stale = (if t = 0 then 0 else of_nat s / of_nat t * 100)\<rparr>"
    by (simp add: analyze_def Let_def percent_value)
  from analyze_loop_stale[OF loop[unfolded th_eq]] range fin r show ?thesis by simp
qed

lemma analyze_raises:
  assumes "analyze f clock session base_url space_key T limit replies = Some (Inl e)"
  shows "(e = OverflowError \<and> (T < - 999999999 \<or> 999999999 < T)) \<or>
         ending (iterate_pages session base_url space_key limit replies) = Raised e \<or>
         (\<exists>x\<in>set (yielded (iterate_pages session base_url space_key limit replies)).
             get_last_modified f x = Inl e)"
proof (cases "timedelta_days T")
  case (Inl e')
  with assms have "e' = e" by (simp add: analyze_def)
  with Inl show ?thesis by (auto simp: timedelta_days_raises)
next
  case (Inr th)
  let ?pages = "iterate_pages session base_url space_key limit replies"
  show ?thesis
  proof (cases "analyze_loop f (now_utc clock) th (yielded ?pages) (0, 0)")
    case (Inl e')
    with assms Inr have "e' = e" by (simp add: analyze_def Let_def)
    with Inl analyze_loop_raises show ?thesis by blast
  next
    case loop: (Inr acc)
    with assms Inr have "ending ?pages = Raised e"
      by (cases acc; cases "ending ?pages") (simp_all add: analyze_def Let_def percent_value)
    then show ?thesis by simp
  qed
qed


lemma filter_remove1_count:
  "x \<in> set xs \<Longrightarrow>
     length (filter P xs) = (if P x then 1 else 0) + length (filter P (remove1 x xs))"
  by (induction xs) auto

lemma get_last_modified_error: "get_last_modified f item = Inl e \<Longrightarrow> e = AttributeError"
  by (auto simp: get_last_modified_def split: sum.splits if_splits pyval.splits
      dest: dict_get_error)

lemma get_last_modified_timestamp:
  assumes "map_of kvs ''version'' = Some (PDict vs)"
    and "map_of vs ''when'' = Some (PStr s)" and "s \<noteq> []"
  shows "get_last_modified f (PDict kvs) = Inr (f (replace_Z s))"
proof -
  from assms(2) have "vs \<noteq> []" by auto
  with assms show ?thesis by (simp add: get_last_modified_def)
qed



text \<open>
  C7. Whatever the replies, the clock and the threshold: when \<open>analyze\<close> returns a
  summary, \<open>stale \<le> total\<close>, and \<open>total\<close> is the number of records that the paginator
  yielded.
\<close>

theorem analyze_stale_le_total:
  assumes "analyze f clock session base_url space_key threshold_days limit replies = Some (Inr r)"
  shows "stale r \<le> total r \<and>
         total r = length (yielded (iterate_pages session base_url space_key limit replies))"
  using analyze_returns[OF assms] by simp

text \<open>
  A run of two records, one with a fresh timestamp and one with none: the summary is
  \<open>total = 2\<close>, \<open>stale = 1\<close>, and the theorem applies to it.
\<close>

theorem analyze_stale_le_total_witness:
  "analyze (\<lambda>s. if s = ''2024-01-01T00:00:00+00:00'' then Some \<lparr>micros = 1000, utcoffset = Some 0\<rparr>
                 else None)
     2000 new_session ''https://wiki/'' None 90 50
     [Body (PDict [(''results'',
         PList [PDict [(''version'', PDict [(''when'', PStr ''2024-01-01T00:00:00Z'')])],
                PDict [(''id'', PStr ''7'')]]),
        (''size'', PInt 2)])]
     = Some (Inr \<lparr>total = 2, stale = 1, percent_stale = 50\<rparr>) \<and>
   stale \<lparr>total = 2, stale = 1, percent_stale = 50\<rparr>
     \<le> total \<lparr>total = 2, stale = 1, percent_stale = 50\<rparr> \<and>
   total \<lparr>total = 2, stale = 1, percent_stale = 50\<rparr>
     = length (yielded (iterate_pages new_session ''https://wiki/'' None 50
         [Body (PDict [(''results'',
             PList [PDict [(''version'', PDict [(''when'', PStr ''2024-01-01T00:00:00Z'')])],
                    PDict [(''id'', PStr ''7'')]]),
            (''size'', PInt 2)])]))"
proof -
  let ?f = "\<lambda>s. if s = ''2024-01-01T00:00:00+00:00''
                 then Some \<lparr>micros = 1000, utcoffset = Some 0\<rparr> else None"
  let ?replies = "[Body (PDict [(''results'',
         PList [PDict [(''version'', PDict [(''when'', PStr ''2024-01-01T00:00:00Z'')])],
                PDict [(''id'', PStr ''7'')]]),
        (''size'', PInt 2)])]"
  have run: "analyze ?f 2000 new_session ''https://wiki/'' None 90 50 ?replies
      = Some (Inr \<lparr>total = 2, stale = 1, percent_stale = 50\<rparr>)"
    by (simp add: analyze_def iterate_pages_def page_step_def extract_results_def
        after_yield_def link_check_def more_pages_def analyze_item_def get_last_modified_def
        replace_Z_def dt_sub_def now_utc_def timedelta_days_def percent_def py_truediv_def)
  from analyze_stale_le_total[OF run] run show ?thesis by simp
qed

text \<open>
  C8, as the code has it. For a threshold that \<^verbatim>\<open>datetime.timedelta\<close> accepts (at most
  999999999 days either way), when the paginator stops without having yielded a record,
  \<open>analyze\<close> returns the summary with \<open>percent_stale = 0\<close>; for a threshold beyond it raises
  OverflowError before any request. A summary with \<open>total = 0\<close> always has
  \<open>percent_stale = 0\<close>, and \<open>analyze\<close> never raises ZeroDivisionError, the division being
  behind the test of \<open>total\<close>.
\<close>

theorem analyze_empty_percent_zero:
  "(- 999999999 \<le> threshold_days \<and> threshold_days \<le> 999999999 \<and>
    yielded (iterate_pages session base_url space_key limit replies) = [] \<and>
    ending (iterate_pages session base_url space_key limit replies) = Finished \<longrightarrow>
      analyze f clock session base_url space_key threshold_days limit replies =
        Some (Inr \<lparr>total = 0, stale = 0, percent_stale = 0\<rparr>)) \<and>
   (threshold_days < - 999999999 \<or> 999999999 < threshold_days \<longrightarrow>
      analyze f clock session base_url space_key threshold_days limit replies =
        Some (Inl OverflowError)) \<and>
   (\<forall>r. analyze f clock session base_url space_key threshold_days limit replies = Some (Inr r) \<and>
        total r = 0 \<longrightarrow> percent_stale r = 0) \<and>
   analyze f clock session base_url space_key threshold_days limit replies
     \<noteq> Some (Inl ZeroDivisionError)"
proof (intro conjI impI allI)
  assume "- 999999999 \<le> threshold_days \<and> threshold_days \<le> 999999999 \<and>
    yielded (iterate_pages session base_url space_key limit replies) = [] \<and>
    ending (iterate_pages session base_url space_key limit replies) = Finished"
  then show "analyze f clock session base_url space_key threshold_days limit replies =
        Some (Inr \<lparr>total = 0, stale = 0, percent_stale = 0\<rparr>)"
    by (simp add: analyze_def timedelta_days_def percent_def)
next
  assume "threshold_days < - 999999999 \<or> 999999999 < threshold_days"
  then show "analyze f clock session base_url space_key threshold_days limit replies =
        Some (Inl OverflowError)"
    by (auto simp: analyze_def timedelta_days_def)
next
  fix r
  assume "analyze f clock session base_url space_key threshold_days limit replies = Some (Inr r) \<and>
        total r = 0"
  with analyze_returns[of f clock session base_url space_key threshold_days limit replies r]
  show "percent_stale r = 0" by simp
next
  show "analyze f clock session base_url space_key threshold_days limit replies
     \<noteq> Some (Inl ZeroDivisionError)"
  proof
    assume "analyze f clock session base_url space_key threshold_days limit replies
      = Some (Inl ZeroDivisionError)"
    from analyze_raises[OF this] iterate_from_error[of limit 0 replies]
    show False by (auto simp: iterate_pages_def dest: get_last_modified_error)
  qed
qed

text \<open>A space with no page: one reply with an empty \<open>results\<close> array.\<close>

theorem analyze_empty_percent_zero_witness:
  "- 999999999 \<le> (90::int) \<and> (90::int) \<le> 999999999 \<and>
   yielded (iterate_pages new_session ''https://wiki'' (Some ''ENG'') 50
      [Body (PDict [(''results'', PList []), (''size'', PInt 0)])]) = [] \<and>
   ending (iterate_pages new_session ''https://wiki'' (Some ''ENG'') 50
      [Body (PDict [(''results'', PList []), (''size'', PInt 0)])]) = Finished \<and>
   analyze (\<lambda>s. None) 0 new_session ''https://wiki'' (Some ''ENG'') 90 50
      [Body (PDict [(''results'', PList []), (''size'', PInt 0)])]
     = Some (Inr \<lparr>total = 0, stale = 0, percent_stale = 0\<rparr>)"
proof -
  let ?run = "iterate_pages new_session ''https://wiki'' (Some ''ENG'') 50
      [Body (PDict [(''results'', PList []), (''size'', PInt 0)])]"
  have pages: "yielded ?run = [] \<and> ending ?run = Finished"
    by (simp add: iterate_pages_def page_step_def extract_results_def after_yield_def
        link_check_def more_pages_def)
  have days: "- 999999999 \<le> (90::int) \<and> (90::int) \<le> 999999999" by simp
  from analyze_empty_percent_zero[of 90 new_session "''https://wiki''" "Some ''ENG''" 50
      "[Body (PDict [(''results'', PList []), (''size'', PInt 0)])]" "\<lambda>s. None" 0] pages days
  show ?thesis by blast
qed

text \<open>
  C8 as stated fails for a threshold of 1000000000 days: the scan would be empty, and
  \<open>analyze\<close> raises OverflowError instead of returning a summary.
\<close>

theorem analyze_empty_overflow:
  "yielded (iterate_pages new_session ''https://wiki'' None 50
      [Body (PDict [(''results'', PList []), (''size'', PInt 0)])]) = [] \<and>
   ending (iterate_pages new_session ''https://wiki'' None 50
      [Body (PDict [(''results'', PList []), (''size'', PInt 0)])]) = Finished \<and>
   analyze (\<lambda>s. None) 0 new_session ''https://wiki'' None 1000000000 50
      [Body (PDict [(''results'', PList []), (''size'', PInt 0)])]
     = Some (Inl OverflowError)"
  by (simp add: analyze_def timedelta_days_def iterate_pages_def page_step_def
      extract_results_def after_yield_def link_check_def more_pages_def)

text \<open>
  C2. Take a record that the paginator yields and whose \<open>version.when\<close> string parses to
  the datetime \<open>lm\<close>. In the summary that \<open>analyze\<close> returns, \<open>stale\<close> is the number of stale
  records among the others, plus one exactly when the clock minus the UTC instant of \<open>lm\<close> is
  strictly more than \<open>T\<close> days. So a record of exactly \<open>now - T days\<close> is not counted, nor
  is one a second younger, and one a second older is.
\<close>

theorem analyze_strict_boundary:
  assumes "map_of kvs ''version'' = Some (PDict vs)"
    and "map_of vs ''when'' = Some (PStr s)" and "s \<noteq> []"
    and "fromisoformat (replace_Z s) = Some lm"
    and "PDict kvs \<in> set (yielded (iterate_pages session base_url space_key limit replies))"
    and "analyze fromisoformat clock session base_url space_key T limit replies = Some (Inr r)"
  shows "stale r = (if T * 86400000000 < clock - utc_instant lm then 1 else 0) +
           length (filter (is_stale fromisoformat clock T)
             (remove1 (PDict kvs)
               (yielded (iterate_pages session base_url space_key limit replies)))) \<and>
         (utc_instant lm = clock - T * 86400000000 \<longrightarrow>
            stale r = length (filter (is_stale fromisoformat clock T)
              (remove1 (PDict kvs)
                (yielded (iterate_pages session base_url space_key limit replies))))) \<and>
         (utc_instant lm = clock - T * 86400000000 + 1000000 \<longrightarrow>
            stale r = length (filter (is_stale fromisoformat clock T)
              (remove1 (PDict kvs)
                (yielded (iterate_pages session base_url space_key limit replies))))) \<and>
         (utc_instant lm = clock - T * 86400000000 - 1000000 \<longrightarrow>
            stale r = 1 + length (filter (is_stale fromisoformat clock T)
              (remove1 (PDict kvs)
                (yielded (iterate_pages session base_url space_key limit replies)))))"
proof -
  let ?items = "yielded (iterate_pages session base_url space_key limit replies)"
  from get_last_modified_timestamp[OF assms(1-3), of fromisoformat] assms(4)
  have rec: "is_stale fromisoformat clock T (PDict kvs)
      \<longleftrightarrow> T * 86400000000 < clock - utc_instant lm"
    by (simp add: is_stale_def)
  from analyze_returns[OF assms(6)]
  have "stale r = length (filter (is_stale fromisoformat clock T) ?items)" by simp
  also from filter_remove1_count[OF assms(5), of "is_stale fromisoformat clock T"] rec
  have "\<dots> = (if T * 86400000000 < clock - utc_instant lm then 1 else 0) +
      length (filter (is_stale fromisoformat clock T) (remove1 (PDict kvs) ?items))"
    by simp
  finally show ?thesis by simp
qed

text \<open>
  A page last changed on 2024-01-01T00:00:00Z, with a threshold of 90 days: read exactly
  90 days later it is not stale, read one second after that it is.
\<close>

theorem analyze_strict_boundary_witness:
  "utc_instant \<lparr>micros = 1704067200000000, utcoffset = Some 0\<rparr>
      = 1711843200000000 - 90 * 86400000000 \<and>
   analyze (\<lambda>s. if s = ''2024-01-01T00:00:00+00:00''
          then Some \<lparr>micros = 1704067200000000, utcoffset = Some 0\<rparr> else None)
     1711843200000000 new_session ''https://wiki'' None 90 50
     [Body (PDict [(''results'', PList [PDict [(''id'', PStr ''7''), (''version'', PDict [(''when'', PStr ''2024-01-01T00:00:00Z'')])]]), (''size'', PInt 1)])]
     = Some (Inr \<lparr>total = 1, stale = 0, percent_stale = 0\<rparr>) \<and>
   utc_instant \<lparr>micros = 1704067200000000, utcoffset = Some 0\<rparr>
      = 1711843201000000 - 90 * 86400000000 - 1000000 \<and>
   analyze (\<lambda>s. if s = ''2024-01-01T00:00:00+00:00''
          then Some \<lparr>micros = 1704067200000000, utcoffset = Some 0\<rparr> else None)
     1711843201000000 new_session ''https://wiki'' None 90 50
     [Body (PDict [(''results'', PList [PDict [(''id'', PStr ''7''), (''version'', PDict [(''when'', PStr ''2024-01-01T00:00:00Z'')])]]), (''size'', PInt 1)])]
     = Some (Inr \<lparr>total = 1, stale = 1, percent_stale = 100\<rparr>)"
proof -
  let ?f = "(\<lambda>s. if s = ''2024-01-01T00:00:00+00:00''
          then Some \<lparr>micros = 1704067200000000, utcoffset = Some 0\<rparr> else None)"
  let ?rec = "PDict [(''id'', PStr ''7''), (''version'', PDict [(''when'', PStr ''2024-01-01T00:00:00Z'')])]"
  let ?replies = "[Body (PDict [(''results'', PList [?rec]), (''size'', PInt 1)])]"
  have version: "map_of [(''id'', PStr ''7''),
        (''version'', PDict [(''when'', PStr ''2024-01-01T00:00:00Z'')])] ''version''
      = Some (PDict [(''when'', PStr ''2024-01-01T00:00:00Z'')])"
    by simp
  have stamp: "map_of [(''when'', PStr ''2024-01-01T00:00:00Z'')] ''when''
      = Some (PStr ''2024-01-01T00:00:00Z'')"
    by simp
  have nonempty: "''2024-01-01T00:00:00Z'' \<noteq> []" by simp
  have parsed: "?f (replace_Z ''2024-01-01T00:00:00Z'')
      = Some \<lparr>micros = 1704067200000000, utcoffset = Some 0\<rparr>"
    by (simp add: replace_Z_def)
  have yielded_rec: "?rec \<in> set (yielded (iterate_pages new_session ''https://wiki'' None 50
      ?replies))"
    by (simp add: iterate_pages_def page_step_def extract_results_def after_yield_def
        link_check_def more_pages_def)
  have instant: "utc_instant \<lparr>micros = 1704067200000000, utcoffset = Some 0\<rparr>
      = 1704067200000000"
    by (simp add: utc_instant_def)
  have at_boundary: "analyze ?f 1711843200000000 new_session ''https://wiki'' None 90 50 ?replies
      = Some (Inr \<lparr>total = 1, stale = 0, percent_stale = 0\<rparr>)"
    by (simp add: analyze_def iterate_pages_def page_step_def extract_results_def
        after_yield_def link_check_def more_pages_def analyze_item_def get_last_modified_def
        replace_Z_def dt_sub_def now_utc_def timedelta_days_def percent_def py_truediv_def)
  have second_older: "analyze ?f 1711843201000000 new_session ''https://wiki'' None 90 50 ?replies
      = Some (Inr \<lparr>total = 1, stale = 1, percent_stale = 100\<rparr>)"
    by (simp add: analyze_def iterate_pages_def page_step_def extract_results_def
        after_yield_def link_check_def more_pages_def analyze_item_def get_last_modified_def
        replace_Z_def dt_sub_def now_utc_def timedelta_days_def percent_def py_truediv_def)
  from analyze_strict_boundary[where fromisoformat = ?f, OF version stamp nonempty parsed
      yielded_rec at_boundary]
    analyze_strict_boundary[where fromisoformat = ?f, OF version stamp nonempty parsed
      yielded_rec second_older]
    at_boundary second_older instant
  show ?thesis by simp
qed




subsection \<open>The results array of a reply\<close>

lemma dict_get_field: "dict_get (PDict kvs) k PNone = Inr (field kvs k)"
  by (simp add: field_def)

text \<open>
  C4, as the code has it. The paginator takes the first of \<open>results\<close>, \<open>page\<close>, \<open>values\<close>
  whose value is true: a field that is absent, null or empty is passed over and the next
  name is consulted. When none is true it takes the value of \<open>values\<close> unless that is
  absent or null, and then the value of \<open>results\<close>, or an empty list when \<open>results\<close> is absent.
\<close>

theorem extract_results_first_truthy:
  "(first_truthy kvs [''results'', ''page'', ''values''] = Some v \<longrightarrow>
      extract_results (PDict kvs) = Inr v) \<and>
   (first_truthy kvs [''results'', ''page'', ''values''] = None \<longrightarrow>
      extract_results (PDict kvs) =
        Inr (if field kvs ''values'' = PNone
             then (case map_of kvs ''results'' of None \<Rightarrow> PList [] | Some r \<Rightarrow> r)
             else field kvs ''values''))"
  unfolding extract_results_def dict_get_field first_truthy_def
  by (auto simp: field_def split: option.splits)

text \<open>A reply of the older API, with the records under \<open>values\<close> and a null \<open>results\<close>.\<close>

theorem extract_results_first_truthy_witness:
  "first_truthy [(''results'', PNone), (''values'', PList [PDict [(''id'', PStr ''7'')]])]
      [''results'', ''page'', ''values''] = Some (PList [PDict [(''id'', PStr ''7'')]]) \<and>
   extract_results (PDict [(''results'', PNone), (''values'', PList [PDict [(''id'', PStr ''7'')]])])
      = Inr (PList [PDict [(''id'', PStr ''7'')]])"
proof -
  have first: "first_truthy [(''results'', PNone), (''values'', PList [PDict [(''id'', PStr ''7'')]])]
      [''results'', ''page'', ''values''] = Some (PList [PDict [(''id'', PStr ''7'')]])"
    by (simp add: first_truthy_def field_def)
  from extract_results_first_truthy[of
      "[(''results'', PNone), (''values'', PList [PDict [(''id'', PStr ''7'')]])]"
      "PList [PDict [(''id'', PStr ''7'')]]"] first
  show ?thesis by blast
qed

text \<open>
  C4 as stated fails: with \<open>results\<close> present and empty, the paginator goes on to \<open>page\<close>
  and takes its records.
\<close>

theorem extract_results_skips_empty_results:
  "map_of [(''results'', PList []), (''page'', PList [PDict [(''id'', PStr ''7'')]])] ''results''
     = Some (PList []) \<and>
   extract_results (PDict [(''results'', PList []), (''page'', PList [PDict [(''id'', PStr ''7'')]])])
     = Inr (PList [PDict [(''id'', PStr ''7'')]])"
  by (simp add: extract_results_def)

subsection \<open>The offset of the next request\<close>









subsection \<open>Empty results\<close>

lemma empty_results_without_size_stops:
  assumes "dict_get data ''size'' PNone = Inr PNone"
    and "extract_results data = Inr results" and "py_iter results = Inr []"
  shows "iterate_from limit start (Body data # rs)
           = \<lparr>yielded = [], offsets = [start], ending = Finished\<rparr>"
proof -
  from assms(3) have "\<not> truthy results" by (cases results) auto
  with assms show ?thesis by (simp add: page_step_def after_yield_def)
qed

lemma stuck_step:
  "page_step limit start (Body (PDict [(''results'', PList []), (''size'', PInt 0),
      (''_links'', PDict [(''next'', PStr ''/rest/api/content?start=0'')])]))
   = ([], Continue start)"
  by (simp add: page_step_def extract_results_def after_yield_def link_check_def more_pages_def)

lemma stuck_from:
  "iterate_from limit start (replicate n (Body (PDict [(''results'', PList []), (''size'', PInt 0),
      (''_links'', PDict [(''next'', PStr ''/rest/api/content?start=0'')])])))
   = \<lparr>yielded = [], offsets = replicate (Suc n) start, ending = Pending\<rparr>"
proof (induction n)
  case 0
  show ?case by simp
next
  case (Suc n)
  then show ?case by (simp add: stuck_step Let_def)
qed

text \<open>
  C1 does not hold of the code. A reply with an empty \<open>results\<close> array, a \<open>size\<close> of 0 and a
  next link does not stop the paginator: it asks again at the same offset, and however
  many such replies the server gives, one more request is pending after the last. (Without
  a \<open>size\<close> field the same reply does stop it: \<open>empty_results_without_size_stops\<close>.)
\<close>

theorem paginator_requests_again_after_empty_results:
  "iterate_pages session base_url space_key limit
     (replicate n (Body (PDict [(''results'', PList []), (''size'', PInt 0),
        (''_links'', PDict [(''next'', PStr ''/rest/api/content?start=0'')])])))
   = \<lparr>yielded = [], offsets = replicate (Suc n) 0, ending = Pending\<rparr>"
  by (simp add: iterate_pages_def stuck_from)

subsection \<open>The session of an empty configuration\<close>

text \<open>
  C5 does not hold of the code. With no config file the configuration is the empty
  mapping, and \<open>make_session\<close> still assigns the pair \<open>(None, None)\<close> to \<open>auth\<close>: the session
  is not the one \<^verbatim>\<open>requests.Session()\<close> gives, and the library attaches a basic-auth
  header built from that pair.
\<close>

theorem make_session_empty_config_sets_auth:
  "load_config safe_load (\<lambda>p. None) module_dir path = Inr (PDict []) \<and>
   make_session (PDict []) = Inr \<lparr>auth = Some (PNone, PNone)\<rparr> \<and>
   make_session (PDict []) \<noteq> Inr new_session \<and>
   attaches_basic_auth \<lparr>auth = Some (PNone, PNone)\<rparr>"
  by (simp add: load_config_def make_session_def new_session_def attaches_basic_auth_def)

subsection \<open>Records of any shape\<close>

lemma version_arg:
  assumes "version_absent_or_object (PDict kvs)"
  shows "\<exists>vs. (if truthy (field kvs ''version'') then field kvs ''version'' else PDict []) = PDict vs"
proof (cases "map_of kvs ''version''")
  case None
  then show ?thesis by (simp add: field_def)
next
  case (Some v)
  with assms show ?thesis
    by (cases v) (simp_all add: field_def version_absent_or_object_def)
qed

lemma get_last_modified_unfold:
  "get_last_modified f (PDict kvs) =
     (case dict_get (if truthy (field kvs ''version'') then field kvs ''version'' else PDict [])
             ''when'' PNone of
        Inl e \<Rightarrow> Inl e
      | Inr w \<Rightarrow>
          if truthy w then
            (case w of PStr s \<Rightarrow> Inr (f (replace_Z s)) | _ \<Rightarrow> Inr None)
          else Inr None)"
  by (simp add: get_last_modified_def field_def cong: sum.case_cong pyval.case_cong)

text \<open>
  C9, as the code has it. On a record whose \<open>version\<close> is absent, false (null, 0, empty) or
  an object, \<open>get_last_modified\<close> raises nothing, whatever \<open>when\<close> is: it returns \<open>None\<close>, or
  the datetime that \<open>fromisoformat\<close> parsed from a string.
\<close>

theorem get_last_modified_total_on_object_version:
  assumes "version_absent_or_object item"
  shows "get_last_modified fromisoformat item = Inr None \<or>
         (\<exists>s lm. fromisoformat (replace_Z s) = Some lm \<and>
                 get_last_modified fromisoformat item = Inr (Some lm))"
proof -
  from assms obtain kvs where item: "item = PDict kvs"
    by (cases item) (simp_all add: version_absent_or_object_def)
  from version_arg[OF assms[unfolded item]] obtain vs where
    vs: "(if truthy (field kvs ''version'') then field kvs ''version'' else PDict []) = PDict vs"
    by blast
  have glm: "get_last_modified fromisoformat item =
      (if truthy (field vs ''when'') then
         (case field vs ''when'' of PStr s \<Rightarrow> Inr (fromisoformat (replace_Z s)) | _ \<Rightarrow> Inr None)
       else Inr None)"
    unfolding item get_last_modified_unfold vs dict_get_field by simp
  show ?thesis
  proof (cases "field vs ''when''")
    case (PStr s)
    then show ?thesis
      by (cases "fromisoformat (replace_Z s)") (auto simp: glm)
  qed (simp_all add: glm)
qed

text \<open>A record whose \<open>when\<close> is a number: \<open>None\<close>, and no exception.\<close>

theorem get_last_modified_total_on_object_version_witness:
  "version_absent_or_object (PDict [(''version'', PDict [(''when'', PInt 1704067200)])]) \<and>
   get_last_modified (\<lambda>s. None) (PDict [(''version'', PDict [(''when'', PInt 1704067200)])])
     = Inr None"
proof -
  have shape: "version_absent_or_object
      (PDict [(''version'', PDict [(''when'', PInt 1704067200)])])"
    by (simp add: version_absent_or_object_def)
  from get_last_modified_total_on_object_version[OF shape, of "\<lambda>s. None"] shape
  show ?thesis by simp
qed

text \<open>
  C9 as stated fails: a record whose \<open>version\<close> is a number (the version number itself,
  say) makes \<^verbatim>\<open>version.get\<close> raise AttributeError, outside the \<^verbatim>\<open>try\<close>.
\<close>

theorem get_last_modified_raises_on_scalar_version:
  "get_last_modified (\<lambda>s. None) (PDict [(''id'', PStr ''7''), (''version'', PInt 3)])
     = Inl AttributeError"
  by (simp add: get_last_modified_def)

text \<open>
  The same holds of every record whose \<open>version\<close> is neither absent, nor false, nor an
  object.
\<close>

lemma get_last_modified_raises_otherwise:
  assumes "\<not> version_absent_or_object (PDict kvs)"
  shows "get_last_modified f (PDict kvs) = Inl AttributeError"
proof (cases "map_of kvs ''version''")
  case None
  with assms show ?thesis by (simp add: version_absent_or_object_def)
next
  case v: (Some v)
  with assms show ?thesis
    by (cases v) (simp_all add: version_absent_or_object_def get_last_modified_def)
qed

subsection \<open>The configuration\<close>

text \<open>
  C10, as the code has it. \<open>load_config\<close> returns the empty mapping when the file is absent
  and when it parses to no data; a document that counts as true (a non-empty mapping, list
  or string, a non-zero number, \<open>true\<close>) is returned as it is, and one that counts as false is
  replaced by the empty mapping. So the result is a mapping exactly when the file is
  absent or its document is a mapping or counts as false, and it is never \<open>None\<close>.
\<close>

theorem load_config_empty_mapping:
  "(fs (config_path module_dir path) = None \<longrightarrow>
      load_config safe_load fs module_dir path = Inr (PDict [])) \<and>
   (\<forall>text. fs (config_path module_dir path) = Some (Inr text) \<and> safe_load text = Inr PNone \<longrightarrow>
      load_config safe_load fs module_dir path = Inr (PDict [])) \<and>
   (\<forall>text v. fs (config_path module_dir path) = Some (Inr text) \<and> safe_load text = Inr v \<and>
        truthy v \<longrightarrow> load_config safe_load fs module_dir path = Inr v) \<and>
   (\<forall>text v. fs (config_path module_dir path) = Some (Inr text) \<and> safe_load text = Inr v \<and>
        \<not> truthy v \<longrightarrow> load_config safe_load fs module_dir path = Inr (PDict [])) \<and>
   (\<forall>kvs. load_config safe_load fs module_dir path = Inr (PDict kvs) \<longleftrightarrow>
        (fs (config_path module_dir path) = None \<and> kvs = []) \<or>
        (\<exists>text v. fs (config_path module_dir path) = Some (Inr text) \<and> safe_load text = Inr v \<and>
           (if truthy v then v = PDict kvs else kvs = []))) \<and>
   load_config safe_load fs module_dir path \<noteq> Inr PNone"
  by (auto simp: load_config_def Let_def split: option.splits sum.splits)

text \<open>An empty \<open>config.yml\<close> beside the module, found through the default path.\<close>

theorem load_config_empty_mapping_witness:
  "config_path ''/opt/checker'' None = ''/opt/checker/config.yml'' \<and>
   load_config (\<lambda>text. if text = [] then Inr PNone else Inl YAMLError)
     (\<lambda>p. if p = ''/opt/checker/config.yml'' then Some (Inr []) else None)
     ''/opt/checker'' None = Inr (PDict [])"
proof -
  let ?fs = "\<lambda>p. if p = ''/opt/checker/config.yml'' then Some (Inr []) else None"
  let ?load = "\<lambda>text. if text = [] then Inr PNone else Inl YAMLError"
  have path: "config_path ''/opt/checker'' None = ''/opt/checker/config.yml''"
    by (simp add: config_path_def path_join_def)
  then have empty_doc: "?fs (config_path ''/opt/checker'' None) = Some (Inr []) \<and> ?load [] = Inr PNone"
    by simp
  from load_config_empty_mapping[of ?fs "''/opt/checker''" None ?load] empty_doc path
  show ?thesis by blast
qed

text \<open>
  C10 as stated fails in its last part: a config file whose document is a list is
  returned as that list, which is not a mapping.
\<close>

theorem load_config_returns_list:
  "load_config (\<lambda>text. Inr (PList [PStr ''admin''])) (\<lambda>p. Some (Inr ''- admin''))
     ''/opt/checker'' None = Inr (PList [PStr ''admin''])"
  by (simp add: load_config_def)

end
